theory Spec2Isabelle
  imports Complex_Main
begin

section \<open>The sessions_spawn tool: request validation and model allowlist gate\<close>

text \<open>
  A shallow embedding of \<^verbatim>\<open>createSessionsSpawnTool(opts).execute\<close> from
  \<^verbatim>\<open>src/agents/tools/sessions-spawn-tool.ts\<close>. The function normalises the raw
  parameters of a tool call, validates an optional model override against the allowed
  model set and hands a spawn request to \<^verbatim>\<open>spawnSubagentDirect\<close>.
\<close>

subsection \<open>JavaScript values\<close>

text \<open>
  A JavaScript number is NaN, one of the two infinities, or a finite double. The finite
  doubles are a subset of the reals, and the only arithmetic the function applies to them
  (\<^verbatim>\<open>Math.floor\<close>, \<^verbatim>\<open>Math.max(0, _)\<close>) is exact on doubles, so a finite number is
  modelled by the real it denotes. Both zeros denote the real 0.
\<close>

datatype jsnum = NaN | PosInf | NegInf | Finite real

text \<open>
  The values a field of \<^verbatim>\<open>params: Record<string, unknown>\<close> can hold. Objects and
  arrays only ever meet \<^verbatim>\<open>typeof\<close> and \<^verbatim>\<open>===\<close> here, so a reference stands for them.
\<close>

datatype jsval =
    JUndefined
  | JNull
  | JBool bool
  | JNum jsnum
  | JStr string
  | JObject nat

type_synonym params = "string \<rightharpoonup> jsval"

text \<open>Property access \<^verbatim>\<open>params.k\<close>: a missing property reads as \<^verbatim>\<open>undefined\<close>.\<close>

definition field :: "params \<Rightarrow> string \<Rightarrow> jsval" where
  "field ps k = (case ps k of None \<Rightarrow> JUndefined | Some v \<Rightarrow> v)"

text \<open>
  \<^verbatim>\<open>String.prototype.trim\<close>. A \<^typ>\<open>char\<close> is read as the code point below 256 it
  encodes; the ECMAScript white space and line terminators in that range are TAB, LF, VT,
  FF, CR, SP and NBSP.
\<close>

definition isWhiteSpace :: "char \<Rightarrow> bool" where
  "isWhiteSpace c = (of_char c \<in> {9, 10, 11, 12, 13, 32, 160 :: nat})"

definition trim :: "string \<Rightarrow> string" where
  "trim s = rev (dropWhile isWhiteSpace (rev (dropWhile isWhiteSpace s)))"

text \<open>\<^verbatim>\<open>Array.prototype.join\<close> on an array of strings.\<close>

fun join :: "string \<Rightarrow> string list \<Rightarrow> string" where
  "join sep [] = []"
| "join sep [x] = x"
| "join sep (x # y # ys) = x @ sep @ join sep (y # ys)"

subsection \<open>Data handed to and received from the collaborators\<close>

text \<open>The \<^verbatim>\<open>{ provider, model }\<close> pair that \<^verbatim>\<open>parseModelRef\<close> returns.\<close>

record model_ref =
  provider :: string
  model :: string

text \<open>
  The result of \<^verbatim>\<open>buildAllowedModelSet\<close>. \<^verbatim>\<open>allowedKeys\<close> is a JavaScript
  \<^verbatim>\<open>Set<string>\<close>; the list holds its elements in iteration order, \<^verbatim>\<open>has\<close> is
  list membership and \<^verbatim>\<open>Array.from\<close> is the list itself.
\<close>

record allowed_model_set =
  allowAny :: bool
  allowedKeys :: "string list"

text \<open>
  The options of \<^verbatim>\<open>createSessionsSpawnTool\<close>. Types are erased at run time, so each
  field is a JavaScript value, \<^verbatim>\<open>undefined\<close> when it is not given.
\<close>

record spawn_tool_opts =
  agentSessionKey :: jsval
  agentChannel :: jsval
  agentAccountId :: jsval
  agentTo :: jsval
  agentThreadId :: jsval
  agentGroupId :: jsval
  agentGroupChannel :: jsval
  agentGroupSpace :: jsval
  sandboxed :: jsval
  requesterAgentIdOverride :: jsval

text \<open>The second argument of \<^verbatim>\<open>spawnSubagentDirect\<close> (lines 110 to 120).\<close>

record spawn_context =
  agentSessionKey :: jsval
  agentChannel :: jsval
  agentAccountId :: jsval
  agentTo :: jsval
  agentThreadId :: jsval
  agentGroupId :: jsval
  agentGroupChannel :: jsval
  agentGroupSpace :: jsval
  requesterAgentIdOverride :: jsval

text \<open>
  The first argument of \<^verbatim>\<open>spawnSubagentDirect\<close> (lines 98 to 109). A field that is
  \<^verbatim>\<open>undefined\<close> is \<^const>\<open>None\<close>.
\<close>

record spawn_request =
  task :: "string option"
  label :: "string option"
  agentId :: "string option"
  model :: "string option"
  thinking :: "string option"
  runTimeoutSeconds :: "int option"
  thread :: bool
  mode :: "string option"
  cleanup :: string
  expectsCompletionMessage :: bool

text \<open>The object literal \<^verbatim>\<open>{ status: ..., error: ... }\<close> of lines 83 to 92.\<close>

record error_payload =
  status :: string
  error :: string

text \<open>
  What \<^verbatim>\<open>execute\<close> passes to \<^verbatim>\<open>jsonResult\<close>: one of its own object literals, or the
  value that the spawning service returned.
\<close>

datatype 'res payload = Literal error_payload | Service 'res

text \<open>An exception raised out of a call.\<close>

datatype thrown = InvalidInput string

text \<open>How a call of \<^verbatim>\<open>execute\<close> ends: with a raised exception or with a returned value.\<close>

datatype 'out outcome = Threw thrown | Returned 'out

text \<open>The calls that reach outside the function, in the order they are made.\<close>

datatype event = LoadConfig | LoadModelCatalog | Spawn spawn_request spawn_context

subsection \<open>The collaborators\<close>

text \<open>
  Everything \<^verbatim>\<open>execute\<close> imports from other modules is a parameter of the model:
  \<^verbatim>\<open>readStringParam\<close> and \<^verbatim>\<open>jsonResult\<close> (./common.js), \<^verbatim>\<open>loadConfig\<close>,
  \<^verbatim>\<open>loadModelCatalog\<close>, \<^verbatim>\<open>buildAllowedModelSet\<close>, \<^verbatim>\<open>parseModelRef\<close>,
  \<^verbatim>\<open>modelKey\<close>, \<^verbatim>\<open>spawnSubagentDirect\<close> and the constant \<^verbatim>\<open>DEFAULT_PROVIDER\<close>.
  \<^verbatim>\<open>readStringParam\<close> takes the parameter object, the key and the \<^verbatim>\<open>required\<close> flag,
  and either raises or returns a string or \<^verbatim>\<open>undefined\<close>. \<^verbatim>\<open>loadConfig\<close> and
  \<^verbatim>\<open>loadModelCatalog\<close> take no argument: the field is the value the call returns, and
  the call itself is recorded as an \<^typ>\<open>event\<close>. The other collaborators follow the
  interfaces the function relies on: they return a value.
\<close>

record ('cfg, 'cat, 'res, 'out) collaborators =
  readStringParam :: "params \<Rightarrow> string \<Rightarrow> bool \<Rightarrow> thrown + string option"
  jsonResult :: "'res payload \<Rightarrow> 'out"
  loadConfig :: 'cfg
  loadModelCatalog :: 'cat
  buildAllowedModelSet :: "'cfg \<Rightarrow> 'cat \<Rightarrow> string \<Rightarrow> allowed_model_set"
  parseModelRef :: "string \<Rightarrow> string \<Rightarrow> model_ref option"
  modelKey :: "string \<Rightarrow> string \<Rightarrow> string"
  spawnSubagentDirect :: "spawn_request \<Rightarrow> spawn_context \<Rightarrow> 'res"
  DEFAULT_PROVIDER :: string

subsection \<open>Parameter normalisation (lines 48 to 66)\<close>

text \<open>\<^verbatim>\<open>typeof params.label === "string" ? params.label.trim() : ""\<close>\<close>

definition label_of :: "params \<Rightarrow> string" where
  "label_of ps = (case field ps ''label'' of JStr s \<Rightarrow> trim s | _ \<Rightarrow> '''')"

text \<open>\<^verbatim>\<open>params.mode === "run" || params.mode === "session" ? params.mode : undefined\<close>\<close>

definition mode_of :: "params \<Rightarrow> string option" where
  "mode_of ps =
     (case field ps ''mode'' of
        JStr s \<Rightarrow> if s = ''run'' \<or> s = ''session'' then Some s else None
      | _ \<Rightarrow> None)"

text \<open>\<^verbatim>\<open>params.cleanup === "keep" || params.cleanup === "delete" ? params.cleanup : "keep"\<close>\<close>

definition cleanup_of :: "params \<Rightarrow> string" where
  "cleanup_of ps =
     (case field ps ''cleanup'' of
        JStr s \<Rightarrow> if s = ''keep'' \<or> s = ''delete'' then s else ''keep''
      | _ \<Rightarrow> ''keep'')"

text \<open>Lines 56 to 61: the new name first, the older \<^verbatim>\<open>timeoutSeconds\<close> second.\<close>

definition timeoutSecondsCandidate :: "params \<Rightarrow> jsnum option" where
  "timeoutSecondsCandidate ps =
     (case field ps ''runTimeoutSeconds'' of
        JNum v \<Rightarrow> Some v
      | _ \<Rightarrow> (case field ps ''timeoutSeconds'' of JNum w \<Rightarrow> Some w | _ \<Rightarrow> None))"

text \<open>
  Lines 62 to 65. \<^verbatim>\<open>Number.isFinite\<close> holds of the \<^const>\<open>Finite\<close> numbers only.
  \<^verbatim>\<open>Math.max(0, Math.floor(x))\<close> of a finite \<open>x\<close> is an integer, and it is \<open>+0\<close> when
  the floor is negative or \<open>-0\<close>.
\<close>

definition runTimeoutSeconds_of :: "params \<Rightarrow> int option" where
  "runTimeoutSeconds_of ps =
     (case timeoutSecondsCandidate ps of
        Some (Finite x) \<Rightarrow> Some (max 0 \<lfloor>x\<rfloor>)
      | _ \<Rightarrow> None)"

text \<open>\<^verbatim>\<open>params.thread === true\<close>\<close>

definition thread_of :: "params \<Rightarrow> bool" where
  "thread_of ps = (field ps ''thread'' = JBool True)"

subsection \<open>The model allowlist check (lines 68 to 95)\<close>

text \<open>
  The check returns the external calls it made and, when it rejects the override, the
  text of the \<^verbatim>\<open>error\<close> field of the payload that \<^verbatim>\<open>execute\<close> returns at once.
  \<^verbatim>\<open>if (modelOverride)\<close> holds of a string that is neither \<^verbatim>\<open>undefined\<close> nor empty.
\<close>

definition validateModelOverride ::
  "('cfg, 'cat, 'res, 'out) collaborators \<Rightarrow> string option \<Rightarrow> event list \<times> string option" where
  "validateModelOverride E modelOverride =
     (case modelOverride of
        None \<Rightarrow> ([], None)
      | Some raw \<Rightarrow>
          if raw = [] then ([], None)
          else
            let cfg = loadConfig E;
                catalog = loadModelCatalog E;
                allowed = buildAllowedModelSet E cfg catalog (DEFAULT_PROVIDER E)
            in ([LoadConfig, LoadModelCatalog],
                if \<not> allowAny allowed then
                  (case parseModelRef E raw (DEFAULT_PROVIDER E) of
                     Some parsed \<Rightarrow>
                       let key = modelKey E (provider parsed) (model_ref.model parsed)
                       in if key \<notin> set (allowedKeys allowed)
                          then Some (''model not allowed: '' @ key @ ''. Allowed models: ''
                                     @ join '', '' (allowedKeys allowed))
                          else None
                   | None \<Rightarrow> Some (''invalid model ref: '' @ raw))
                else None))"

subsection \<open>Dispatch (lines 97 to 123)\<close>

text \<open>\<^verbatim>\<open>opts?.f\<close>\<close>

definition opt_field :: "(spawn_tool_opts \<Rightarrow> jsval) \<Rightarrow> spawn_tool_opts option \<Rightarrow> jsval" where
  "opt_field f opts = (case opts of None \<Rightarrow> JUndefined | Some ov \<Rightarrow> f ov)"

definition context_of :: "spawn_tool_opts option \<Rightarrow> spawn_context" where
  "context_of opts =
     \<lparr> agentSessionKey = opt_field spawn_tool_opts.agentSessionKey opts,
       agentChannel = opt_field spawn_tool_opts.agentChannel opts,
       agentAccountId = opt_field spawn_tool_opts.agentAccountId opts,
       agentTo = opt_field spawn_tool_opts.agentTo opts,
       agentThreadId = opt_field spawn_tool_opts.agentThreadId opts,
       agentGroupId = opt_field spawn_tool_opts.agentGroupId opts,
       agentGroupChannel = opt_field spawn_tool_opts.agentGroupChannel opts,
       agentGroupSpace = opt_field spawn_tool_opts.agentGroupSpace opts,
       requesterAgentIdOverride = opt_field spawn_tool_opts.requesterAgentIdOverride opts \<rparr>"

text \<open>The request literal; \<^verbatim>\<open>label || undefined\<close> drops an empty label.\<close>

definition request_of ::
  "params \<Rightarrow> string option \<Rightarrow> string option \<Rightarrow> string option \<Rightarrow> string option \<Rightarrow> spawn_request" where
  "request_of ps task' requestedAgentId modelOverride thinkingOverrideRaw =
     \<lparr> task = task',
       label = (if label_of ps = [] then None else Some (label_of ps)),
       agentId = requestedAgentId,
       model = modelOverride,
       thinking = thinkingOverrideRaw,
       runTimeoutSeconds = runTimeoutSeconds_of ps,
       thread = thread_of ps,
       mode = mode_of ps,
       cleanup = cleanup_of ps,
       expectsCompletionMessage = True \<rparr>"

text \<open>
  What \<^verbatim>\<open>execute\<close> does once the four \<^verbatim>\<open>readStringParam\<close> calls have returned. The
  values of lines 48 and 52 to 66 depend on \<^verbatim>\<open>params\<close> alone and cannot raise; they are
  computed where the request literal uses them.
\<close>

definition dispatch ::
  "('cfg, 'cat, 'res, 'out) collaborators \<Rightarrow> spawn_tool_opts option \<Rightarrow> params \<Rightarrow>
   string option \<Rightarrow> string option \<Rightarrow> string option \<Rightarrow> string option \<Rightarrow> event list \<times> 'out outcome" where
  "dispatch E opts ps task' requestedAgentId modelOverride thinkingOverrideRaw =
     (case validateModelOverride E modelOverride of
        (loads, Some message) \<Rightarrow>
          (loads, Returned (jsonResult E (Literal \<lparr> status = ''error'', error = message \<rparr>)))
      | (loads, None) \<Rightarrow>
          let request = request_of ps task' requestedAgentId modelOverride thinkingOverrideRaw;
              context = context_of opts;
              result = spawnSubagentDirect E request context
          in (loads @ [Spawn request context], Returned (jsonResult E (Service result))))"

text \<open>
  \<^verbatim>\<open>execute\<close>. No call of \<^verbatim>\<open>readStringParam\<close> stands inside a \<^verbatim>\<open>try\<close>, so an
  exception raised by one of them leaves \<^verbatim>\<open>execute\<close> before any external call is made.
\<close>

definition execute ::
  "('cfg, 'cat, 'res, 'out) collaborators \<Rightarrow> spawn_tool_opts option \<Rightarrow> params \<Rightarrow>
   event list \<times> 'out outcome" where
  "execute E opts ps =
     (case readStringParam E ps ''task'' True of
        Inl e \<Rightarrow> ([], Threw e)
      | Inr task' \<Rightarrow>
     (case readStringParam E ps ''agentId'' False of
        Inl e \<Rightarrow> ([], Threw e)
      | Inr requestedAgentId \<Rightarrow>
     (case readStringParam E ps ''model'' False of
        Inl e \<Rightarrow> ([], Threw e)
      | Inr modelOverride \<Rightarrow>
     (case readStringParam E ps ''thinking'' False of
        Inl e \<Rightarrow> ([], Threw e)
      | Inr thinkingOverrideRaw \<Rightarrow>
          dispatch E opts ps task' requestedAgentId modelOverride thinkingOverrideRaw))))"

text \<open>The calls of the spawning service in a trace, in order.\<close>

fun spawn_calls :: "event list \<Rightarrow> (spawn_request \<times> spawn_context) list" where
  "spawn_calls [] = []"
| "spawn_calls (Spawn r c # es) = (r, c) # spawn_calls es"
| "spawn_calls (e # es) = spawn_calls es"

subsection \<open>The parameter reader\<close>

text \<open>
  Modelled from the spec: \<^verbatim>\<open>readStringParam\<close> of \<^verbatim>\<open>./common.js\<close> is not part of the
  source tree. The specification says of the required \<^verbatim>\<open>task\<close> that a missing, empty
  or whitespace-only value fails with \<^verbatim>\<open>InvalidInput\<close> and a message that mentions the
  field, and of the optional \<^verbatim>\<open>agentId\<close>, \<^verbatim>\<open>model\<close> and \<^verbatim>\<open>thinking\<close> that they are
  passed through verbatim if present and non-empty. A value that is not a string counts
  as missing. The wording of the message, the key followed by \<open>required\<close>, is a choice
  of this model.
\<close>

definition readStringParam_spec :: "params \<Rightarrow> string \<Rightarrow> bool \<Rightarrow> thrown + string option" where
  "readStringParam_spec ps key required =
     (case field ps key of
        JStr s \<Rightarrow>
          if required then
            (if trim s = [] then Inl (InvalidInput (key @ '' required'')) else Inr (Some s))
          else (if s = [] then Inr None else Inr (Some s))
      | _ \<Rightarrow> if required then Inl (InvalidInput (key @ '' required'')) else Inr None)"

subsection \<open>Test doubles\<close>

text \<open>
  Collaborators for running \<^const>\<open>execute\<close> on concrete inputs: a restrictive
  allowlist of two keys, a parser that rejects the one name \<open>gpt-unknown\<close> and
  qualifies every other name with the default provider, and a spawning service that
  answers with the task it was given.
\<close>

definition stub_parseModelRef :: "string \<Rightarrow> string \<Rightarrow> model_ref option" where
  "stub_parseModelRef raw defaultProvider =
     (if raw = ''gpt-unknown'' then None
      else Some \<lparr> provider = defaultProvider, model = raw \<rparr>)"

definition stub_spawn :: "spawn_request \<Rightarrow> spawn_context \<Rightarrow> string" where
  "stub_spawn r c = ''accepted:'' @ (case task r of None \<Rightarrow> [] | Some t \<Rightarrow> t)"

definition restrictive :: "(unit, unit, string, string payload) collaborators" where
  "restrictive =
     \<lparr> readStringParam = readStringParam_spec,
       jsonResult = (\<lambda>p. p),
       loadConfig = (),
       loadModelCatalog = (),
       buildAllowedModelSet =
         (\<lambda>cfg catalog dp. \<lparr> allowAny = False, allowedKeys = [dp @ ''/large'', dp @ ''/small''] \<rparr>),
       parseModelRef = stub_parseModelRef,
       modelKey = (\<lambda>p m. p @ ''/'' @ m),
       spawnSubagentDirect = stub_spawn,
       DEFAULT_PROVIDER = ''acme'' \<rparr>"

definition permissive :: "(unit, unit, string, string payload) collaborators" where
  "permissive =
     restrictive \<lparr> buildAllowedModelSet :=
       (\<lambda>cfg catalog dp. \<lparr> allowAny = True, allowedKeys = [] \<rparr>) \<rparr>"

section \<open>Properties\<close>

subsection \<open>How a call unfolds\<close>

lemma execute_reads:
  assumes "readStringParam E ps ''task'' True = Inr t"
    and "readStringParam E ps ''agentId'' False = Inr a"
    and "readStringParam E ps ''model'' False = Inr m"
    and "readStringParam E ps ''thinking'' False = Inr th"
  shows "execute E opts ps = dispatch E opts ps t a m th"
  using assms by (simp add: execute_def)

lemma execute_raises:
  assumes "readStringParam E ps ''task'' True = Inl e"
  shows "execute E opts ps = ([], Threw e)"
  using assms by (simp add: execute_def)

lemma validate_absent: "validateModelOverride E None = ([], None)"
  by (simp add: validateModelOverride_def)

lemma validate_allowAny:
  assumes "raw \<noteq> []"
    and "allowAny (buildAllowedModelSet E (loadConfig E) (loadModelCatalog E) (DEFAULT_PROVIDER E))"
  shows "validateModelOverride E (Some raw) = ([LoadConfig, LoadModelCatalog], None)"
  using assms by (simp add: validateModelOverride_def)

lemma validate_unparsed:
  assumes "raw \<noteq> []"
    and "\<not> allowAny (buildAllowedModelSet E (loadConfig E) (loadModelCatalog E) (DEFAULT_PROVIDER E))"
    and "parseModelRef E raw (DEFAULT_PROVIDER E) = None"
  shows "validateModelOverride E (Some raw) =
           ([LoadConfig, LoadModelCatalog], Some (''invalid model ref: '' @ raw))"
  using assms by (simp add: validateModelOverride_def)

lemma validate_parsed:
  assumes "raw \<noteq> []"
    and "\<not> allowAny (buildAllowedModelSet E (loadConfig E) (loadModelCatalog E) (DEFAULT_PROVIDER E))"
    and "parseModelRef E raw (DEFAULT_PROVIDER E) = Some parsed"
  shows "validateModelOverride E (Some raw) =
           ([LoadConfig, LoadModelCatalog],
            let allowed = buildAllowedModelSet E (loadConfig E) (loadModelCatalog E) (DEFAULT_PROVIDER E);
                key = modelKey E (provider parsed) (model_ref.model parsed)
            in if key \<in> set (allowedKeys allowed) then None
               else Some (''model not allowed: '' @ key @ ''. Allowed models: ''
                          @ join '', '' (allowedKeys allowed)))"
  using assms by (simp add: validateModelOverride_def Let_def)

lemma validate_loads:
  "fst (validateModelOverride E m) = [] \<or> fst (validateModelOverride E m) = [LoadConfig, LoadModelCatalog]"
  by (simp add: validateModelOverride_def Let_def split: option.split)

lemma dispatch_rejected:
  assumes "validateModelOverride E m = (loads, Some message)"
  shows "dispatch E opts ps t a m th =
           (loads, Returned (jsonResult E (Literal \<lparr> status = ''error'', error = message \<rparr>)))"
  using assms by (simp add: dispatch_def)

lemma dispatch_accepted:
  assumes "validateModelOverride E m = (loads, None)"
  shows "dispatch E opts ps t a m th =
           (loads @ [Spawn (request_of ps t a m th) (context_of opts)],
            Returned (jsonResult E (Service (spawnSubagentDirect E (request_of ps t a m th) (context_of opts)))))"
  using assms by (simp add: dispatch_def Let_def)

lemma spawn_calls_dispatch:
  "spawn_calls (fst (dispatch E opts ps t a m th)) =
     (case snd (validateModelOverride E m) of
        None \<Rightarrow> [(request_of ps t a m th, context_of opts)]
      | Some message \<Rightarrow> [])"
proof (cases "validateModelOverride E m")
  case (Pair loads verdict)
  from validate_loads [of E m] Pair
  have loads: "loads = [] \<or> loads = [LoadConfig, LoadModelCatalog]" by simp
  show ?thesis
  proof (cases verdict)
    case None
    with Pair loads show ?thesis by (auto simp: dispatch_accepted)
  next
    case (Some message)
    with Pair loads show ?thesis by (auto simp: dispatch_rejected)
  qed
qed

lemma spawn_calls_execute:
  assumes "rc \<in> set (spawn_calls (fst (execute E opts ps)))"
  shows "\<exists>t a m th. readStringParam E ps ''model'' False = Inr m
            \<and> rc = (request_of ps t a m th, context_of opts)"
  using assms
  by (auto simp: execute_def spawn_calls_dispatch split: sum.splits option.splits)

lemma no_loads_dispatch:
  assumes "\<not> (\<exists>raw. m = Some raw \<and> raw \<noteq> [])"
  shows "LoadConfig \<notin> set (fst (dispatch E opts ps t a m th))"
    and "LoadModelCatalog \<notin> set (fst (dispatch E opts ps t a m th))"
  using assms by (auto simp: dispatch_def validateModelOverride_def Let_def split: option.splits)

text \<open>
  A call ends in one of three ways only: with the exception of a parameter read, with an
  error payload of the allowlist check, or with the result of the spawning service.
\<close>

lemma execute_outcome_cases:
  "(\<exists>e k req. readStringParam E ps k req = Inl e \<and> execute E opts ps = ([], Threw e))
   \<or> (\<exists>m message. readStringParam E ps ''model'' False = Inr m
         \<and> snd (validateModelOverride E m) = Some message
         \<and> snd (execute E opts ps) =
             Returned (jsonResult E (Literal \<lparr> status = ''error'', error = message \<rparr>)))
   \<or> (\<exists>r. snd (execute E opts ps) =
             Returned (jsonResult E (Service (spawnSubagentDirect E r (context_of opts)))))"
proof (cases "readStringParam E ps ''task'' True")
  case (Inl e)
  then show ?thesis by (auto simp: execute_def)
next
  case task: (Inr t)
  show ?thesis
  proof (cases "readStringParam E ps ''agentId'' False")
    case (Inl e)
    with task show ?thesis by (auto simp: execute_def)
  next
    case agent: (Inr a)
    show ?thesis
    proof (cases "readStringParam E ps ''model'' False")
      case (Inl e)
      with task agent show ?thesis by (auto simp: execute_def)
    next
      case model: (Inr m)
      show ?thesis
      proof (cases "readStringParam E ps ''thinking'' False")
        case (Inl e)
        with task agent model show ?thesis by (auto simp: execute_def)
      next
        case (Inr th)
        with task agent model
        have run: "execute E opts ps = dispatch E opts ps t a m th"
          by (rule execute_reads)
        show ?thesis
        proof (cases "validateModelOverride E m")
          case (Pair loads verdict)
          then show ?thesis
            using model run
            by (cases verdict) (auto simp: dispatch_rejected dispatch_accepted)
        qed
      qed
    qed
  qed
qed

subsection \<open>The claims\<close>

text \<open>
  Claim C1, as amended. When \<^verbatim>\<open>task\<close> is missing, is not a string, is empty or holds
  white space only, and the reader treats the required \<^verbatim>\<open>task\<close> as the specification
  describes, the \<^verbatim>\<open>InvalidInput\<close> failure that names the field is raised out of
  \<^verbatim>\<open>execute\<close>: no payload is returned, and neither the configuration, the catalog nor
  the spawning service is touched.
\<close>

theorem missing_task_raises:
  assumes reader: "readStringParam E ps ''task'' True = readStringParam_spec ps ''task'' True"
    and blank: "\<forall>s. field ps ''task'' = JStr s \<longrightarrow> trim s = []"
  shows "execute E opts ps = ([], Threw (InvalidInput ''task required''))"
proof -
  from blank have "readStringParam_spec ps ''task'' True = Inl (InvalidInput ''task required'')"
    by (cases "field ps ''task''") (simp_all add: readStringParam_spec_def)
  with reader show ?thesis by (simp add: execute_raises)
qed

text \<open>An input with a whitespace-only task and a model on the allowlist.\<close>

theorem missing_task_raises_witness:
  "execute restrictive None [''task'' \<mapsto> JStr '' '', ''model'' \<mapsto> JStr ''large'']
     = ([], Threw (InvalidInput ''task required''))"
  using missing_task_raises [of restrictive "[''task'' \<mapsto> JStr '' '', ''model'' \<mapsto> JStr ''large'']" None]
  by (simp add: restrictive_def field_def trim_def isWhiteSpace_def)

text \<open>
  The claim as written fails on the empty parameter object: the call ends with a raised
  exception, not with a returned \<^verbatim>\<open>{status: "error", ...}\<close> payload.
\<close>

theorem missing_task_not_reported:
  "snd (execute permissive None Map.empty) = Threw (InvalidInput ''task required'')"
  by (simp add: execute_def permissive_def restrictive_def readStringParam_spec_def field_def)

text \<open>
  Claim C2. Let \<open>v\<close> be the number in \<^verbatim>\<open>runTimeoutSeconds\<close>, or, when that field holds no
  number, the number in \<^verbatim>\<open>timeoutSeconds\<close>; so \<^verbatim>\<open>runTimeoutSeconds\<close> wins when both
  hold one. The resolved timeout is 0 for a negative finite \<open>v\<close>, the floor of \<open>v\<close> for any
  other finite \<open>v\<close>, and absent for NaN and the infinities. It is the
  \<^verbatim>\<open>runTimeoutSeconds\<close> field of every request handed to the spawning service; and when
  the four parameter reads return and the allowlist check does not reject, the spawning
  service is called exactly once, with that value.
\<close>

theorem timeout_resolution:
  assumes chosen: "field ps ''runTimeoutSeconds'' = JNum v
      \<or> ((\<forall>u. field ps ''runTimeoutSeconds'' \<noteq> JNum u) \<and> field ps ''timeoutSeconds'' = JNum v)"
    and resolved: "resolved = (case v of Finite x \<Rightarrow> Some (if x < 0 then 0 else \<lfloor>x\<rfloor>) | _ \<Rightarrow> None)"
  shows "runTimeoutSeconds_of ps = resolved
       \<and> (\<forall>(r, c) \<in> set (spawn_calls (fst (execute E opts ps))). runTimeoutSeconds r = resolved)
       \<and> (\<forall>t a m th.
             readStringParam E ps ''task'' True = Inr t
             \<longrightarrow> readStringParam E ps ''agentId'' False = Inr a
             \<longrightarrow> readStringParam E ps ''model'' False = Inr m
             \<longrightarrow> readStringParam E ps ''thinking'' False = Inr th
             \<longrightarrow> snd (validateModelOverride E m) = None
             \<longrightarrow> map (runTimeoutSeconds \<circ> fst) (spawn_calls (fst (execute E opts ps))) = [resolved])"
proof -
  from chosen have cand: "timeoutSecondsCandidate ps = Some v"
    by (auto simp: timeoutSecondsCandidate_def split: jsval.splits)
  have clamp: "max 0 \<lfloor>x\<rfloor> = (if x < 0 then 0 else \<lfloor>x\<rfloor>)" for x :: real
    by (simp add: max_def)
  from cand clamp have norm: "runTimeoutSeconds_of ps = resolved"
    unfolding resolved by (cases v) (simp_all add: runTimeoutSeconds_of_def)
  have fwd: "runTimeoutSeconds r = resolved"
    if "(r, c) \<in> set (spawn_calls (fst (execute E opts ps)))" for r c
    using spawn_calls_execute [OF that] norm by (auto simp: request_of_def)
  have once: "map (runTimeoutSeconds \<circ> fst) (spawn_calls (fst (execute E opts ps))) = [resolved]"
    if "readStringParam E ps ''task'' True = Inr t"
      and "readStringParam E ps ''agentId'' False = Inr a"
      and "readStringParam E ps ''model'' False = Inr m"
      and "readStringParam E ps ''thinking'' False = Inr th"
      and "snd (validateModelOverride E m) = None" for t a m th
  proof -
    from that(1-4) have "execute E opts ps = dispatch E opts ps t a m th"
      by (rule execute_reads)
    with that(5) norm show ?thesis
      by (simp add: spawn_calls_dispatch request_of_def)
  qed
  from norm fwd once show ?thesis by auto
qed

text \<open>
  Three calls that reach the spawning service: both fields numeric with a negative
  new-style value; only the old name numeric, with a fraction, and a model that passes the
  restrictive allowlist; and a NaN under the new name hiding a number under the old one.
\<close>

theorem timeout_resolution_witness:
  "map (runTimeoutSeconds \<circ> fst) (spawn_calls (fst (execute permissive None
       [''task'' \<mapsto> JStr ''go'', ''timeoutSeconds'' \<mapsto> JNum (Finite 7),
        ''runTimeoutSeconds'' \<mapsto> JNum (Finite (- 5 / 2))]))) = [Some 0]
   \<and> map (runTimeoutSeconds \<circ> fst) (spawn_calls (fst (execute restrictive None
       [''task'' \<mapsto> JStr ''go'', ''model'' \<mapsto> JStr ''large'',
        ''timeoutSeconds'' \<mapsto> JNum (Finite (459 / 10)), ''runTimeoutSeconds'' \<mapsto> JStr ''9'']))) = [Some 45]
   \<and> map (runTimeoutSeconds \<circ> fst) (spawn_calls (fst (execute permissive None
       [''task'' \<mapsto> JStr ''go'', ''timeoutSeconds'' \<mapsto> JNum (Finite 7),
        ''runTimeoutSeconds'' \<mapsto> JNum NaN]))) = [None]"
  using
    timeout_resolution [where E = permissive and opts = None and v = "Finite (- 5 / 2)"
      and resolved = "Some 0"
      and ps = "[''task'' \<mapsto> JStr ''go'', ''timeoutSeconds'' \<mapsto> JNum (Finite 7),
                 ''runTimeoutSeconds'' \<mapsto> JNum (Finite (- 5 / 2))]"]
    timeout_resolution [where E = restrictive and opts = None and v = "Finite (459 / 10)"
      and resolved = "Some 45"
      and ps = "[''task'' \<mapsto> JStr ''go'', ''model'' \<mapsto> JStr ''large'',
                 ''timeoutSeconds'' \<mapsto> JNum (Finite (459 / 10)), ''runTimeoutSeconds'' \<mapsto> JStr ''9'']"]
    timeout_resolution [where E = permissive and opts = None and v = NaN
      and resolved = None
      and ps = "[''task'' \<mapsto> JStr ''go'', ''timeoutSeconds'' \<mapsto> JNum (Finite 7),
                 ''runTimeoutSeconds'' \<mapsto> JNum NaN]"]
  by (simp add: permissive_def restrictive_def readStringParam_spec_def field_def trim_def
      isWhiteSpace_def validateModelOverride_def stub_parseModelRef_def)

text \<open>
  Claim C3. When the four parameter reads return, the model override is a non-empty
  string \<open>raw\<close>, the allowed model set is restrictive and \<^verbatim>\<open>parseModelRef\<close> returns
  \<^verbatim>\<open>null\<close> for \<open>raw\<close>, then \<^verbatim>\<open>execute\<close> returns the payload
  \<^verbatim>\<open>{status: "error", error: "invalid model ref: " + raw}\<close> and the spawning service is
  not called.
\<close>

theorem invalid_model_ref_rejected:
  assumes "readStringParam E ps ''task'' True = Inr t"
    and "readStringParam E ps ''agentId'' False = Inr a"
    and "readStringParam E ps ''model'' False = Inr (Some raw)"
    and "readStringParam E ps ''thinking'' False = Inr th"
    and "raw \<noteq> []"
    and "\<not> allowAny (buildAllowedModelSet E (loadConfig E) (loadModelCatalog E) (DEFAULT_PROVIDER E))"
    and "parseModelRef E raw (DEFAULT_PROVIDER E) = None"
  shows "snd (execute E opts ps) =
           Returned (jsonResult E (Literal \<lparr> status = ''error'', error = ''invalid model ref: '' @ raw \<rparr>))
       \<and> spawn_calls (fst (execute E opts ps)) = []"
proof -
  have "validateModelOverride E (Some raw) =
          ([LoadConfig, LoadModelCatalog], Some (''invalid model ref: '' @ raw))"
    using assms(5-7) by (rule validate_unparsed)
  then have "execute E opts ps =
      ([LoadConfig, LoadModelCatalog],
       Returned (jsonResult E (Literal \<lparr> status = ''error'', error = ''invalid model ref: '' @ raw \<rparr>)))"
    using assms(1-4) by (simp add: execute_reads dispatch_rejected)
  then show ?thesis by simp
qed

text \<open>The override \<open>gpt-unknown\<close> under the restrictive test doubles.\<close>

theorem invalid_model_ref_rejected_witness:
  "snd (execute restrictive None [''task'' \<mapsto> JStr ''go'', ''model'' \<mapsto> JStr ''gpt-unknown''])
     = Returned (Literal \<lparr> status = ''error'', error = ''invalid model ref: gpt-unknown'' \<rparr>)
   \<and> spawn_calls (fst (execute restrictive None [''task'' \<mapsto> JStr ''go'', ''model'' \<mapsto> JStr ''gpt-unknown''])) = []"
  using invalid_model_ref_rejected [where E = restrictive and opts = None and t = "Some ''go''"
      and a = None and th = None and raw = "''gpt-unknown''"
      and ps = "[''task'' \<mapsto> JStr ''go'', ''model'' \<mapsto> JStr ''gpt-unknown'']"]
  by (simp add: restrictive_def readStringParam_spec_def field_def trim_def isWhiteSpace_def
      stub_parseModelRef_def)

text \<open>
  Claim C4. When the four parameter reads return, the allowed model set is restrictive,
  the non-empty override \<open>raw\<close> parses and the key of the parsed reference is not among the
  allowed keys, then \<^verbatim>\<open>execute\<close> returns the payload whose \<^verbatim>\<open>error\<close> is
  \<open>model not allowed: \<close>, the key, \<open>. Allowed models: \<close> and the allowed keys in
  iteration order joined by a comma and a space; the spawning service is not called.
\<close>

theorem model_not_allowed_rejected:
  assumes "readStringParam E ps ''task'' True = Inr t"
    and "readStringParam E ps ''agentId'' False = Inr a"
    and "readStringParam E ps ''model'' False = Inr (Some raw)"
    and "readStringParam E ps ''thinking'' False = Inr th"
    and "raw \<noteq> []"
    and "allowed = buildAllowedModelSet E (loadConfig E) (loadModelCatalog E) (DEFAULT_PROVIDER E)"
    and "\<not> allowAny allowed"
    and "parseModelRef E raw (DEFAULT_PROVIDER E) = Some parsed"
    and "key = modelKey E (provider parsed) (model_ref.model parsed)"
    and "key \<notin> set (allowedKeys allowed)"
  shows "snd (execute E opts ps) =
           Returned (jsonResult E (Literal \<lparr> status = ''error'',
             error = ''model not allowed: '' @ key @ ''. Allowed models: '' @ join '', '' (allowedKeys allowed) \<rparr>))
       \<and> spawn_calls (fst (execute E opts ps)) = []"
proof -
  have "validateModelOverride E (Some raw) =
          ([LoadConfig, LoadModelCatalog],
           Some (''model not allowed: '' @ key @ ''. Allowed models: '' @ join '', '' (allowedKeys allowed)))"
    using assms(5-10) by (simp add: validate_parsed)
  then have "execute E opts ps =
      ([LoadConfig, LoadModelCatalog],
       Returned (jsonResult E (Literal \<lparr> status = ''error'',
         error = ''model not allowed: '' @ key @ ''. Allowed models: '' @ join '', '' (allowedKeys allowed) \<rparr>)))"
    using assms(1-4) by (simp add: execute_reads dispatch_rejected)
  then show ?thesis by simp
qed

text \<open>The override \<open>huge\<close>, whose key \<open>acme/huge\<close> is not one of the two allowed keys.\<close>

theorem model_not_allowed_rejected_witness:
  "snd (execute restrictive None [''task'' \<mapsto> JStr ''go'', ''model'' \<mapsto> JStr ''huge''])
     = Returned (Literal \<lparr> status = ''error'',
         error = ''model not allowed: acme/huge. Allowed models: acme/large, acme/small'' \<rparr>)
   \<and> spawn_calls (fst (execute restrictive None [''task'' \<mapsto> JStr ''go'', ''model'' \<mapsto> JStr ''huge''])) = []"
  using model_not_allowed_rejected [where E = restrictive and opts = None and t = "Some ''go''"
      and a = None and th = None and raw = "''huge''"
      and ps = "[''task'' \<mapsto> JStr ''go'', ''model'' \<mapsto> JStr ''huge'']"
      and allowed = "\<lparr> allowAny = False, allowedKeys = [''acme/large'', ''acme/small''] \<rparr>"
      and parsed = "\<lparr> provider = ''acme'', model = ''huge'' \<rparr>" and key = "''acme/huge''"]
  by (simp add: restrictive_def readStringParam_spec_def field_def trim_def isWhiteSpace_def
      stub_parseModelRef_def)

text \<open>
  Claim C5. When the parameter object has no \<^verbatim>\<open>model\<close> field, and the reader answers an
  absent optional field as the specification describes (with \<^verbatim>\<open>undefined\<close>), a call
  loads neither the configuration nor the model catalog, every request handed to the
  spawning service has \<^verbatim>\<open>model\<close> absent, and when the other three reads return the
  request is handed over, the only external call made.
\<close>

theorem absent_model_skips_allowlist:
  assumes absent: "ps ''model'' = None"
    and reader: "readStringParam E ps ''model'' False = readStringParam_spec ps ''model'' False"
  shows "LoadConfig \<notin> set (fst (execute E opts ps))
       \<and> LoadModelCatalog \<notin> set (fst (execute E opts ps))
       \<and> (\<forall>(r, c) \<in> set (spawn_calls (fst (execute E opts ps))). model r = None)
       \<and> (\<forall>t a th. readStringParam E ps ''task'' True = Inr t
             \<longrightarrow> readStringParam E ps ''agentId'' False = Inr a
             \<longrightarrow> readStringParam E ps ''thinking'' False = Inr th
             \<longrightarrow> execute E opts ps =
                   ([Spawn (request_of ps t a None th) (context_of opts)],
                    Returned (jsonResult E (Service
                      (spawnSubagentDirect E (request_of ps t a None th) (context_of opts))))))"
proof -
  from absent reader have m: "readStringParam E ps ''model'' False = Inr None"
    by (simp add: readStringParam_spec_def field_def)
  have loads: "LoadConfig \<notin> set (fst (execute E opts ps))
      \<and> LoadModelCatalog \<notin> set (fst (execute E opts ps))"
    using m by (auto simp: execute_def no_loads_dispatch split: sum.splits)
  have fwd: "model r = None"
    if "(r, c) \<in> set (spawn_calls (fst (execute E opts ps)))" for r c
    using spawn_calls_execute [OF that] m by (auto simp: request_of_def)
  have run: "execute E opts ps =
      ([Spawn (request_of ps t a None th) (context_of opts)],
       Returned (jsonResult E (Service
         (spawnSubagentDirect E (request_of ps t a None th) (context_of opts)))))"
    if "readStringParam E ps ''task'' True = Inr t"
      and "readStringParam E ps ''agentId'' False = Inr a"
      and "readStringParam E ps ''thinking'' False = Inr th" for t a th
    using that m by (simp add: execute_reads dispatch_accepted [OF validate_absent])
  from loads fwd run show ?thesis by auto
qed

text \<open>A parameter object that holds a task and nothing else.\<close>

theorem absent_model_skips_allowlist_witness:
  "execute restrictive None [''task'' \<mapsto> JStr ''go''] =
     ([Spawn (request_of [''task'' \<mapsto> JStr ''go''] (Some ''go'') None None None) (context_of None)],
      Returned (Service ''accepted:go''))
   \<and> model (request_of [''task'' \<mapsto> JStr ''go''] (Some ''go'') None None None) = None"
  using absent_model_skips_allowlist [where E = restrictive and opts = None
      and ps = "[''task'' \<mapsto> JStr ''go'']"]
  by (simp add: restrictive_def readStringParam_spec_def field_def trim_def isWhiteSpace_def
      stub_spawn_def request_of_def)

text \<open>
  Claim C6. Every request handed to the spawning service carries \<^verbatim>\<open>mode\<close> \<open>run\<close> or
  \<open>session\<close> exactly when the raw value is that string, and no \<^verbatim>\<open>mode\<close> otherwise.
  Setting \<^verbatim>\<open>mode\<close> to any value \<open>v\<close> never decides whether the spawning service is
  called, for a reader whose answers for the other keys do not depend on \<^verbatim>\<open>mode\<close>.
\<close>

theorem mode_forwarding:
  shows "(\<forall>(r, c) \<in> set (spawn_calls (fst (execute E opts ps))).
            mode r = (if field ps ''mode'' = JStr ''run'' then Some ''run''
                      else if field ps ''mode'' = JStr ''session'' then Some ''session''
                      else None))
       \<and> ((\<forall>k req. k \<noteq> ''mode'' \<longrightarrow>
              readStringParam E (ps(''mode'' \<mapsto> v)) k req = readStringParam E ps k req)
            \<longrightarrow> (spawn_calls (fst (execute E opts (ps(''mode'' \<mapsto> v)))) = []
                  \<longleftrightarrow> spawn_calls (fst (execute E opts ps)) = []))"
proof -
  have norm: "mode_of ps = (if field ps ''mode'' = JStr ''run'' then Some ''run''
                      else if field ps ''mode'' = JStr ''session'' then Some ''session''
                      else None)"
    by (auto simp: mode_of_def split: jsval.splits)
  have fwd: "mode r = mode_of ps"
    if "(r, c) \<in> set (spawn_calls (fst (execute E opts ps)))" for r c
    using spawn_calls_execute [OF that] by (auto simp: request_of_def)
  have same: "spawn_calls (fst (execute E opts (ps(''mode'' \<mapsto> v)))) = []
                  \<longleftrightarrow> spawn_calls (fst (execute E opts ps)) = []"
    if "\<forall>k req. k \<noteq> ''mode'' \<longrightarrow>
              readStringParam E (ps(''mode'' \<mapsto> v)) k req = readStringParam E ps k req"
  proof -
    from that have "readStringParam E (ps(''mode'' \<mapsto> v)) ''task'' True = readStringParam E ps ''task'' True"
      and "readStringParam E (ps(''mode'' \<mapsto> v)) ''agentId'' False = readStringParam E ps ''agentId'' False"
      and "readStringParam E (ps(''mode'' \<mapsto> v)) ''model'' False = readStringParam E ps ''model'' False"
      and "readStringParam E (ps(''mode'' \<mapsto> v)) ''thinking'' False = readStringParam E ps ''thinking'' False"
      by simp_all
    then show ?thesis
      by (simp add: execute_def spawn_calls_dispatch split: sum.splits option.splits)
  qed
  from norm fwd same show ?thesis by auto
qed

text \<open>The unexpected mode \<open>loop\<close> is forwarded as absent; \<open>run\<close> is forwarded.\<close>

theorem mode_forwarding_witness:
  "map (mode \<circ> fst) (spawn_calls (fst (execute permissive None
      ([''task'' \<mapsto> JStr ''go''](''mode'' \<mapsto> JStr ''loop''))))) = [None]
   \<and> map (mode \<circ> fst) (spawn_calls (fst (execute permissive None
      ([''task'' \<mapsto> JStr ''go''](''mode'' \<mapsto> JStr ''run''))))) = [Some ''run'']"
  using mode_forwarding [where E = permissive and opts = None and v = "JStr ''loop''"
      and ps = "[''task'' \<mapsto> JStr ''go'']"]
    mode_forwarding [where E = permissive and opts = None and v = "JStr ''run''"
      and ps = "[''task'' \<mapsto> JStr ''go'', ''mode'' \<mapsto> JStr ''run'']"]
  by (simp add: execute_def dispatch_def validateModelOverride_def permissive_def restrictive_def
      readStringParam_spec_def field_def trim_def isWhiteSpace_def request_of_def mode_of_def Let_def)

text \<open>
  Claim C7. Every request handed to the spawning service carries \<^verbatim>\<open>cleanup\<close>
  \<open>delete\<close> when the raw value is exactly the string \<open>delete\<close>, and \<open>keep\<close> for every
  other raw value, an absent field included.
\<close>

theorem cleanup_forwarding:
  "\<forall>(r, c) \<in> set (spawn_calls (fst (execute E opts ps))).
      cleanup r = (if field ps ''cleanup'' = JStr ''delete'' then ''delete'' else ''keep'')"
proof -
  have norm: "cleanup_of ps = (if field ps ''cleanup'' = JStr ''delete'' then ''delete'' else ''keep'')"
    by (auto simp: cleanup_of_def split: jsval.splits)
  have fwd: "cleanup r = cleanup_of ps"
    if "(r, c) \<in> set (spawn_calls (fst (execute E opts ps)))" for r c
    using spawn_calls_execute [OF that] by (auto simp: request_of_def)
  from norm fwd show ?thesis by auto
qed

text \<open>The raw values \<open>delete\<close>, \<open>purge\<close> and an absent field.\<close>

theorem cleanup_forwarding_witness:
  "map (cleanup \<circ> fst) (spawn_calls (fst (execute permissive None
      [''task'' \<mapsto> JStr ''go'', ''cleanup'' \<mapsto> JStr ''delete'']))) = [''delete'']
   \<and> map (cleanup \<circ> fst) (spawn_calls (fst (execute permissive None
      [''task'' \<mapsto> JStr ''go'', ''cleanup'' \<mapsto> JStr ''purge'']))) = [''keep'']
   \<and> map (cleanup \<circ> fst) (spawn_calls (fst (execute permissive None
      [''task'' \<mapsto> JStr ''go'']))) = [''keep'']"
  using cleanup_forwarding [where E = permissive and opts = None
      and ps = "[''task'' \<mapsto> JStr ''go'', ''cleanup'' \<mapsto> JStr ''delete'']"]
    cleanup_forwarding [where E = permissive and opts = None
      and ps = "[''task'' \<mapsto> JStr ''go'', ''cleanup'' \<mapsto> JStr ''purge'']"]
    cleanup_forwarding [where E = permissive and opts = None
      and ps = "[''task'' \<mapsto> JStr ''go'']"]
  by (simp add: execute_def dispatch_def validateModelOverride_def permissive_def restrictive_def
      readStringParam_spec_def field_def trim_def isWhiteSpace_def request_of_def cleanup_of_def Let_def)

text \<open>
  Claim C8. When the four parameter reads return, the model override is a non-empty
  string \<open>m\<close> and the allowed model set built from the loaded configuration and catalog
  allows any model, the call loads both, hands the request with \<^verbatim>\<open>model\<close> \<open>m\<close> to the
  spawning service and returns its result. Neither \<^verbatim>\<open>parseModelRef\<close> nor
  \<^verbatim>\<open>modelKey\<close> has a part in it: replacing them changes nothing.
\<close>

theorem allow_any_forwards_model:
  assumes "readStringParam E ps ''task'' True = Inr t"
    and "readStringParam E ps ''agentId'' False = Inr a"
    and "readStringParam E ps ''model'' False = Inr (Some m)"
    and "readStringParam E ps ''thinking'' False = Inr th"
    and "m \<noteq> []"
    and "allowAny (buildAllowedModelSet E (loadConfig E) (loadModelCatalog E) (DEFAULT_PROVIDER E))"
  shows "execute E opts ps =
           ([LoadConfig, LoadModelCatalog, Spawn (request_of ps t a (Some m) th) (context_of opts)],
            Returned (jsonResult E (Service
              (spawnSubagentDirect E (request_of ps t a (Some m) th) (context_of opts)))))
       \<and> model (request_of ps t a (Some m) th) = Some m
       \<and> execute (E \<lparr> parseModelRef := parse, modelKey := mkey \<rparr>) opts ps = execute E opts ps"
proof -
  let ?E' = "E \<lparr> parseModelRef := parse, modelKey := mkey \<rparr>"
  have pass: "validateModelOverride E (Some m) = ([LoadConfig, LoadModelCatalog], None)"
    using assms(5,6) by (rule validate_allowAny)
  have pass': "validateModelOverride ?E' (Some m) = ([LoadConfig, LoadModelCatalog], None)"
    using assms(5,6) by (simp add: validate_allowAny)
  have run: "execute E opts ps = dispatch E opts ps t a (Some m) th"
    using assms(1-4) by (rule execute_reads)
  have run': "execute ?E' opts ps = dispatch ?E' opts ps t a (Some m) th"
    using assms(1-4) by (simp add: execute_reads)
  show ?thesis
    by (simp add: run run' dispatch_accepted [OF pass] dispatch_accepted [OF pass'] request_of_def)
qed

text \<open>The name that the test parser rejects passes under the allow-any policy.\<close>

theorem allow_any_forwards_model_witness:
  "execute permissive None [''task'' \<mapsto> JStr ''go'', ''model'' \<mapsto> JStr ''gpt-unknown''] =
     ([LoadConfig, LoadModelCatalog,
       Spawn (request_of [''task'' \<mapsto> JStr ''go'', ''model'' \<mapsto> JStr ''gpt-unknown'']
                (Some ''go'') None (Some ''gpt-unknown'') None) (context_of None)],
      Returned (Service ''accepted:go''))
   \<and> model (request_of [''task'' \<mapsto> JStr ''go'', ''model'' \<mapsto> JStr ''gpt-unknown'']
                (Some ''go'') None (Some ''gpt-unknown'') None) = Some ''gpt-unknown''"
  using allow_any_forwards_model [where E = permissive and opts = None and t = "Some ''go''"
      and a = None and th = None and m = "''gpt-unknown''"
      and ps = "[''task'' \<mapsto> JStr ''go'', ''model'' \<mapsto> JStr ''gpt-unknown'']"]
  by (simp add: permissive_def restrictive_def readStringParam_spec_def field_def trim_def
      isWhiteSpace_def stub_spawn_def request_of_def)

text \<open>
  Claim C9. The end-to-end scenario, with the reader of the specification and any
  allowlist policy. The literal \<^verbatim>\<open>45.9\<close> denotes the double nearest to 45.9; the theorem
  holds for every finite number from 45 up to, but not including, 46. The call makes one
  external call, the spawn of the request
  \<^verbatim>\<open>{task: "summarize doc", mode: "session", cleanup: "delete", runTimeoutSeconds: 45,
  thread: false, expectsCompletionMessage: true}\<close> with every other field absent, and
  returns what the spawning service returned.
\<close>

theorem end_to_end_scenario:
  assumes reader: "readStringParam E = readStringParam_spec"
    and x: "45 \<le> x \<and> x < 46"
    and "ps = [''task'' \<mapsto> JStr ''summarize doc'', ''mode'' \<mapsto> JStr ''session'',
               ''cleanup'' \<mapsto> JStr ''delete'', ''runTimeoutSeconds'' \<mapsto> JNum (Finite x)]"
    and "request = \<lparr> task = Some ''summarize doc'', label = None, agentId = None, model = None,
               thinking = None, runTimeoutSeconds = Some 45, thread = False,
               mode = Some ''session'', cleanup = ''delete'', expectsCompletionMessage = True \<rparr>"
  shows "execute E opts ps =
           ([Spawn request (context_of opts)],
            Returned (jsonResult E (Service (spawnSubagentDirect E request (context_of opts)))))"
proof -
  from x have "\<lfloor>x\<rfloor> = 45" by linarith
  then have "request_of ps (Some ''summarize doc'') None None None = request"
    by (simp add: assms(3,4) request_of_def label_of_def runTimeoutSeconds_of_def
        timeoutSecondsCandidate_def thread_of_def mode_of_def cleanup_of_def field_def)
  moreover have "execute E opts ps = dispatch E opts ps (Some ''summarize doc'') None None None"
    by (simp add: execute_def reader assms(3) readStringParam_spec_def field_def trim_def
        isWhiteSpace_def)
  ultimately show ?thesis
    by (simp add: dispatch_accepted [OF validate_absent])
qed

text \<open>The scenario at the rational 459/10 under the allow-any test doubles.\<close>

theorem end_to_end_scenario_witness:
  "execute permissive None
     [''task'' \<mapsto> JStr ''summarize doc'', ''mode'' \<mapsto> JStr ''session'',
      ''cleanup'' \<mapsto> JStr ''delete'', ''runTimeoutSeconds'' \<mapsto> JNum (Finite (459 / 10))] =
   ([Spawn \<lparr> task = Some ''summarize doc'', label = None, agentId = None, model = None,
              thinking = None, runTimeoutSeconds = Some 45, thread = False,
              mode = Some ''session'', cleanup = ''delete'', expectsCompletionMessage = True \<rparr>
       (context_of None)],
    Returned (Service ''accepted:summarize doc''))"
  using end_to_end_scenario [where E = permissive and opts = None and x = "459 / 10", OF _ _ refl refl]
  by (simp add: permissive_def restrictive_def stub_spawn_def)

text \<open>
  Claim C10. When the override \<open>raw\<close> passes the restrictive allowlist, the spawning
  service is called once, and the \<^verbatim>\<open>model\<close> of its request is \<open>raw\<close> itself, not the key
  computed from the parsed reference.
\<close>

theorem allowed_model_forwarded_raw:
  assumes "readStringParam E ps ''task'' True = Inr t"
    and "readStringParam E ps ''agentId'' False = Inr a"
    and "readStringParam E ps ''model'' False = Inr (Some raw)"
    and "readStringParam E ps ''thinking'' False = Inr th"
    and "raw \<noteq> []"
    and "allowed = buildAllowedModelSet E (loadConfig E) (loadModelCatalog E) (DEFAULT_PROVIDER E)"
    and "\<not> allowAny allowed"
    and "parseModelRef E raw (DEFAULT_PROVIDER E) = Some parsed"
    and "modelKey E (provider parsed) (model_ref.model parsed) \<in> set (allowedKeys allowed)"
  shows "map (model \<circ> fst) (spawn_calls (fst (execute E opts ps))) = [Some raw]"
proof -
  have "validateModelOverride E (Some raw) = ([LoadConfig, LoadModelCatalog], None)"
    using assms(5-9) by (simp add: validate_parsed)
  then have "spawn_calls (fst (dispatch E opts ps t a (Some raw) th)) =
      [(request_of ps t a (Some raw) th, context_of opts)]"
    by (simp add: spawn_calls_dispatch)
  with assms(1-4) show ?thesis
    by (simp add: execute_reads request_of_def)
qed

text \<open>The override \<open>large\<close> has the key \<open>acme/large\<close> and is forwarded as \<open>large\<close>.\<close>

theorem allowed_model_forwarded_raw_witness:
  "modelKey restrictive ''acme'' ''large'' = ''acme/large''
   \<and> map (model \<circ> fst) (spawn_calls (fst (execute restrictive None
         [''task'' \<mapsto> JStr ''go'', ''model'' \<mapsto> JStr ''large'']))) = [Some ''large'']"
  using allowed_model_forwarded_raw [where E = restrictive and opts = None and t = "Some ''go''"
      and a = None and th = None and raw = "''large''"
      and ps = "[''task'' \<mapsto> JStr ''go'', ''model'' \<mapsto> JStr ''large'']"
      and allowed = "\<lparr> allowAny = False, allowedKeys = [''acme/large'', ''acme/small''] \<rparr>"
      and parsed = "\<lparr> provider = ''acme'', model = ''large'' \<rparr>"]
  by (simp add: restrictive_def readStringParam_spec_def field_def trim_def isWhiteSpace_def
      stub_parseModelRef_def)

end
